theory Spec2Isabelle
  imports Main "HOL-Library.Word"
begin

section \<open>SecureBootFHE: the attestation contract\<close>

text \<open>
  A shallow embedding of the Solidity contract \<^verbatim>\<open>SecureBootFHE\<close>. Every external
  function takes the call environment and the contract storage and returns either the
  revert reason or the events it emitted together with the new storage. A reverted call
  changes nothing, so it carries no storage.
\<close>

subsection \<open>Value types\<close>

type_synonym address = "160 word"
type_synonym uint256 = "256 word"
type_synonym uint32 = "32 word"
type_synonym bytes = "8 word list"

text \<open>
  An \<^verbatim>\<open>euint32\<close> is a handle to a ciphertext. The embedding keeps, for each handle,
  the plaintext it encrypts: \<open>None\<close> is the uninitialised handle (the all-zero
  \<^verbatim>\<open>bytes32\<close> that an unwritten storage slot holds), \<open>Some v\<close> a handle to an
  encryption of \<open>v\<close>. An \<^verbatim>\<open>ebool\<close> is kept as the truth value it encrypts.
\<close>

type_synonym euint32 = "uint32 option"
type_synonym ebool = bool

subsection \<open>The encrypted value service\<close>

text \<open>
  Modelled from the spec: the library \<^verbatim>\<open>FHE\<close> (imported from
  \<^verbatim>\<open>@fhevm/solidity\<close>, not part of the repository). The spec lists its operations
  \<^verbatim>\<open>encrypt\<close>, \<^verbatim>\<open>eq\<close>, \<^verbatim>\<open>gt\<close>, \<^verbatim>\<open>select\<close> and \<^verbatim>\<open>add\<close> on ciphertexts;
  each is given here by its effect on the plaintexts. An uninitialised operand counts as
  an encryption of zero (the spec's zero/default profile). Addition is that of
  \<^verbatim>\<open>uint32\<close> and wraps around; \<^verbatim>\<open>gt\<close> compares unsigned values.
\<close>

definition plain :: "euint32 \<Rightarrow> uint32" where
  "plain h = (case h of None \<Rightarrow> 0 | Some v \<Rightarrow> v)"

definition FHE_asEuint32 :: "uint32 \<Rightarrow> euint32" where
  "FHE_asEuint32 v = Some v"

definition FHE_eq :: "euint32 \<Rightarrow> euint32 \<Rightarrow> ebool" where
  "FHE_eq a b = (plain a = plain b)"

definition FHE_gt :: "euint32 \<Rightarrow> euint32 \<Rightarrow> ebool" where
  "FHE_gt a b = (plain b < plain a)"

definition FHE_select :: "ebool \<Rightarrow> euint32 \<Rightarrow> euint32 \<Rightarrow> euint32" where
  "FHE_select c a b = Some (if c then plain a else plain b)"

definition FHE_add :: "euint32 \<Rightarrow> euint32 \<Rightarrow> euint32" where
  "FHE_add a b = Some (plain a + plain b)"

subsection \<open>Storage layout\<close>

record FirmwareComponent =
  encryptedChecksum :: euint32
  encryptedSize :: euint32
  encryptedVersion :: euint32
  isVerified :: bool

record BootStage =
  bootloader :: FirmwareComponent
  kernel :: FirmwareComponent
  rootfs :: FirmwareComponent
  overallStatus :: euint32
  timestamp :: uint256

text \<open>
  A Solidity mapping is total: a key never written reads as the default value, the empty
  array or the zero handle.
\<close>

record contract =
  deviceBootRecords :: "address \<Rightarrow> BootStage list"
  trustedChecksums :: "address \<Rightarrow> euint32"
  trustedSizes :: "address \<Rightarrow> euint32"
  trustedVersions :: "address \<Rightarrow> euint32"
  verificationThreshold :: uint256
  admin :: address

datatype event =
    FirmwareRegistered address
  | BootAttempt address nat
  | VerificationPassed address nat
  | VerificationFailed address nat
  | ThresholdUpdated uint256

text \<open>
  Reverts: a failed \<^verbatim>\<open>require\<close> with its message, a compiler-inserted panic with its
  code (\<open>0x11\<close> arithmetic overflow or underflow, \<open>0x32\<close> array index out of range), a
  rejected decryption proof, and undecodable ABI data.
\<close>

datatype error =
    Require string
  | Panic nat
  | InvalidSignatures
  | AbiDecodeError

record env =
  msg_sender :: address
  block_timestamp :: uint256

type_synonym result = "error + (event list \<times> contract)"

text \<open>
  \<^verbatim>\<open>FHE.checkSignatures\<close> belongs to the library too. The contract only calls it and
  goes on when it does not revert, so it is a parameter of the embedding: a predicate on
  the request id, the cleartexts and the proof.
\<close>

type_synonym checker = "uint256 \<Rightarrow> bytes \<Rightarrow> bytes \<Rightarrow> bool"

subsection \<open>The contract's functions\<close>

definition constructor :: "address \<Rightarrow> uint256 \<Rightarrow> contract" where
  "constructor sender threshold0 =
     \<lparr>deviceBootRecords = (\<lambda>_. []),
      trustedChecksums = (\<lambda>_. None),
      trustedSizes = (\<lambda>_. None),
      trustedVersions = (\<lambda>_. None),
      verificationThreshold = threshold0,
      admin = sender\<rparr>"

definition registerTrustedFirmware ::
  "env \<Rightarrow> address \<Rightarrow> euint32 \<Rightarrow> euint32 \<Rightarrow> euint32 \<Rightarrow> contract \<Rightarrow> result" where
  "registerTrustedFirmware e device checksum size0 version s =
     (if msg_sender e \<noteq> admin s then Inl (Require ''Admin only'')
      else Inr ([FirmwareRegistered device],
                s\<lparr>trustedChecksums := (trustedChecksums s)(device := checksum),
                  trustedSizes := (trustedSizes s)(device := size0),
                  trustedVersions := (trustedVersions s)(device := version)\<rparr>))"

definition verifyComponent :: "contract \<Rightarrow> address \<Rightarrow> FirmwareComponent \<Rightarrow> euint32" where
  "verifyComponent s device component =
     (let checksumValid = FHE_eq (encryptedChecksum component) (trustedChecksums s device);
          sizeValid = FHE_eq (encryptedSize component) (trustedSizes s device);
          versionValid = FHE_gt (encryptedVersion component) (FHE_asEuint32 0);
          componentScore = FHE_asEuint32 0;
          componentScore = FHE_add componentScore
             (FHE_select checksumValid (FHE_asEuint32 1) (FHE_asEuint32 0));
          componentScore = FHE_add componentScore
             (FHE_select sizeValid (FHE_asEuint32 1) (FHE_asEuint32 0));
          componentScore = FHE_add componentScore
             (FHE_select versionValid (FHE_asEuint32 1) (FHE_asEuint32 0))
      in componentScore)"

text \<open>
  The three assignments \<^verbatim>\<open>deviceBootRecords[device][i].c.isVerified = true\<close> for
  \<^verbatim>\<open>c\<close> the bootloader, the kernel and the root file system. Indexing the storage
  array out of range panics.
\<close>

definition setVerified :: "BootStage \<Rightarrow> BootStage" where
  "setVerified st =
     st\<lparr>bootloader := (bootloader st)\<lparr>isVerified := True\<rparr>,
        kernel := (kernel st)\<lparr>isVerified := True\<rparr>,
        rootfs := (rootfs st)\<lparr>isVerified := True\<rparr>\<rparr>"

definition markVerified :: "address \<Rightarrow> nat \<Rightarrow> contract \<Rightarrow> error + contract" where
  "markVerified device i s =
     (let recs = deviceBootRecords s device
      in if i < length recs
         then Inr (s\<lparr>deviceBootRecords :=
                       (deviceBootRecords s)(device := recs[i := setVerified (recs ! i)])\<rparr>)
         else Inl (Panic 0x32))"

definition verifyBootStage ::
  "env \<Rightarrow> euint32 \<Rightarrow> euint32 \<Rightarrow> euint32 \<Rightarrow> euint32 \<Rightarrow> euint32 \<Rightarrow> euint32 \<Rightarrow>
   euint32 \<Rightarrow> euint32 \<Rightarrow> euint32 \<Rightarrow> contract \<Rightarrow> result" where
  "verifyBootStage e bootloaderChecksum bootloaderSize bootloaderVersion
       kernelChecksum kernelSize kernelVersion rootfsChecksum rootfsSize rootfsVersion s =
     (let device = msg_sender e;
          bootloader0 = \<lparr>encryptedChecksum = bootloaderChecksum,
                         encryptedSize = bootloaderSize,
                         encryptedVersion = bootloaderVersion,
                         isVerified = False\<rparr>;
          kernel0 = \<lparr>encryptedChecksum = kernelChecksum,
                     encryptedSize = kernelSize,
                     encryptedVersion = kernelVersion,
                     isVerified = False\<rparr>;
          rootfs0 = \<lparr>encryptedChecksum = rootfsChecksum,
                     encryptedSize = rootfsSize,
                     encryptedVersion = rootfsVersion,
                     isVerified = False\<rparr>;
          bootloaderValid = verifyComponent s device bootloader0;
          kernelValid = verifyComponent s device kernel0;
          rootfsValid = verifyComponent s device rootfs0;
          overall = FHE_asEuint32 0;
          overall = FHE_add overall bootloaderValid;
          overall = FHE_add overall kernelValid;
          overall = FHE_add overall rootfsValid;
          stageId = length (deviceBootRecords s device);
          s1 = s\<lparr>deviceBootRecords := (deviceBootRecords s)
                  (device := deviceBootRecords s device @
                     [\<lparr>bootloader = bootloader0, kernel = kernel0, rootfs = rootfs0,
                       overallStatus = overall, timestamp = block_timestamp e\<rparr>])\<rparr>
      in if FHE_gt overall (FHE_asEuint32 (ucast (verificationThreshold s)))
         then (case markVerified device stageId s1 of
                 Inl err \<Rightarrow> Inl err
               | Inr s2 \<Rightarrow> Inr ([BootAttempt device stageId,
                                 VerificationPassed device stageId], s2))
         else Inr ([BootAttempt device stageId, VerificationFailed device stageId], s1))"

text \<open>
  \<^verbatim>\<open>requestBootStatusDecryption\<close> assigns to none of the contract's state variables
  and emits none of the contract's events: the request id that the library returns is a
  local that is never used. What \<^verbatim>\<open>FHE.requestDecryption\<close> records is state of the
  library, which the embedding does not hold; its only trace here is the verdict of
  \<^verbatim>\<open>FHE.checkSignatures\<close> in the callback.
\<close>

definition requestBootStatusDecryption :: "env \<Rightarrow> nat \<Rightarrow> contract \<Rightarrow> result" where
  "requestBootStatusDecryption e stageId s =
     (let device = msg_sender e
      in if \<not> stageId < length (deviceBootRecords s device)
         then Inl (Require ''Invalid stage ID'')
         else Inr ([], s))"

text \<open>
  \<^verbatim>\<open>abi.decode(cleartexts, (uint32))\<close>: the first 32 bytes are one big-endian word;
  the decoder reverts on shorter data and on a word that does not fit 32 bits.
\<close>

definition be_nat :: "bytes \<Rightarrow> nat" where
  "be_nat bs = foldl (\<lambda>acc b. acc * 256 + unat b) 0 bs"

definition abi_decode_uint32 :: "bytes \<Rightarrow> uint32 option" where
  "abi_decode_uint32 cleartexts =
     (if length cleartexts < 32 then None
      else let v = be_nat (take 32 cleartexts)
           in if v < 2 ^ 32 then Some (of_nat v) else None)"

definition decryptBootStatus ::
  "checker \<Rightarrow> env \<Rightarrow> uint256 \<Rightarrow> bytes \<Rightarrow> bytes \<Rightarrow> contract \<Rightarrow> result" where
  "decryptBootStatus checkSignatures e requestId cleartexts prf s =
     (if \<not> checkSignatures requestId cleartexts prf then Inl InvalidSignatures
      else case abi_decode_uint32 cleartexts of
             None \<Rightarrow> Inl AbiDecodeError
           | Some status \<Rightarrow>
               (let device = msg_sender e;
                    n = length (deviceBootRecords s device)
                in if n = 0 then Inl (Panic 0x11)
                   else (let latestStage = n - 1
                         in if ucast (verificationThreshold s) < status
                            then (case markVerified device latestStage s of
                                    Inl err \<Rightarrow> Inl err
                                  | Inr s1 \<Rightarrow> Inr ([], s1))
                            else Inr ([], s))))"

definition updateVerificationThreshold :: "env \<Rightarrow> uint256 \<Rightarrow> contract \<Rightarrow> result" where
  "updateVerificationThreshold e newThreshold s =
     (if msg_sender e \<noteq> admin s then Inl (Require ''Admin only'')
      else Inr ([ThresholdUpdated newThreshold], s\<lparr>verificationThreshold := newThreshold\<rparr>))"

definition getBootStageCount :: "contract \<Rightarrow> address \<Rightarrow> nat" where
  "getBootStageCount s device = length (deviceBootRecords s device)"

definition getBootStageStatus ::
  "contract \<Rightarrow> address \<Rightarrow> nat \<Rightarrow> error + (bool \<times> bool \<times> bool \<times> uint256)" where
  "getBootStageStatus s device stageId =
     (if \<not> stageId < length (deviceBootRecords s device)
      then Inl (Require ''Invalid stage ID'')
      else (let stage = deviceBootRecords s device ! stageId
            in Inr (isVerified (bootloader stage), isVerified (kernel stage),
                    isVerified (rootfs stage), timestamp stage)))"

subsection \<open>Transactions\<close>

text \<open>
  The state-changing entry points as one datatype, and a ledger that applies a sequence
  of transactions: a transaction that reverts leaves the storage as it was and logs
  nothing.
\<close>

datatype call =
    RegisterTrustedFirmware address euint32 euint32 euint32
  | VerifyBootStage euint32 euint32 euint32 euint32 euint32 euint32 euint32 euint32 euint32
  | RequestBootStatusDecryption nat
  | DecryptBootStatus uint256 bytes bytes
  | UpdateVerificationThreshold uint256

fun exec :: "checker \<Rightarrow> env \<Rightarrow> call \<Rightarrow> contract \<Rightarrow> result" where
  "exec chk e (RegisterTrustedFirmware d c z v) s = registerTrustedFirmware e d c z v s"
| "exec chk e (VerifyBootStage bc bs bv kc ks kv rc rs rv) s =
     verifyBootStage e bc bs bv kc ks kv rc rs rv s"
| "exec chk e (RequestBootStatusDecryption i) s = requestBootStatusDecryption e i s"
| "exec chk e (DecryptBootStatus r ct p) s = decryptBootStatus chk e r ct p s"
| "exec chk e (UpdateVerificationThreshold n) s = updateVerificationThreshold e n s"

definition commit :: "checker \<Rightarrow> env \<Rightarrow> call \<Rightarrow> event list \<times> contract \<Rightarrow> event list \<times> contract" where
  "commit chk e c ls =
     (case exec chk e c (snd ls) of
        Inl err \<Rightarrow> ls
      | Inr (evs, s1) \<Rightarrow> (fst ls @ evs, s1))"

fun run :: "checker \<Rightarrow> (env \<times> call) list \<Rightarrow> event list \<times> contract \<Rightarrow> event list \<times> contract" where
  "run chk [] ls = ls"
| "run chk ((e, c) # txs) ls = run chk txs (commit chk e c ls)"

subsection \<open>Derived notions used in the statements\<close>

text \<open>
  The record that \<^verbatim>\<open>verifyBootStage\<close> leaves in storage, as a function of the
  submitted handles, the storage before the call and the value \<open>v\<close> of the three flags.
  Lemma \<open>verifyBootStage_eq\<close> below relates it to the function itself.
\<close>

definition submitted ::
  "env \<Rightarrow> euint32 \<Rightarrow> euint32 \<Rightarrow> euint32 \<Rightarrow> euint32 \<Rightarrow> euint32 \<Rightarrow> euint32 \<Rightarrow>
   euint32 \<Rightarrow> euint32 \<Rightarrow> euint32 \<Rightarrow> contract \<Rightarrow> bool \<Rightarrow> BootStage" where
  "submitted e bc bs bv kc ks kv rc rs rv s v =
    \<lparr>bootloader = \<lparr>encryptedChecksum = bc, encryptedSize = bs,
                   encryptedVersion = bv, isVerified = v\<rparr>,
     kernel = \<lparr>encryptedChecksum = kc, encryptedSize = ks,
               encryptedVersion = kv, isVerified = v\<rparr>,
     rootfs = \<lparr>encryptedChecksum = rc, encryptedSize = rs,
               encryptedVersion = rv, isVerified = v\<rparr>,
     overallStatus = Some
       (plain (verifyComponent s (msg_sender e)
                 \<lparr>encryptedChecksum = bc, encryptedSize = bs,
                  encryptedVersion = bv, isVerified = False\<rparr>)
        + plain (verifyComponent s (msg_sender e)
                 \<lparr>encryptedChecksum = kc, encryptedSize = ks,
                  encryptedVersion = kv, isVerified = False\<rparr>)
        + plain (verifyComponent s (msg_sender e)
                 \<lparr>encryptedChecksum = rc, encryptedSize = rs,
                  encryptedVersion = rv, isVerified = False\<rparr>)),
     timestamp = block_timestamp e\<rparr>"

text \<open>
  Fixtures of the scenarios: the administrator has address 1, the device address 2; the
  reference is \<open>(42, 1024, 3)\<close>; \<open>word32 b\<close> is the ABI encoding of the small number
  \<open>b\<close>; \<open>acceptAll\<close> is a signature check that accepts every response and
  \<open>oneResponse\<close> one that accepts a single response, the cleartext 9 for request 7;
  \<open>stage bc score v\<close> is the record of a submission with bootloader checksum \<open>bc\<close>
  and otherwise matching evidence.
\<close>

abbreviation asAdmin :: env where
  "asAdmin \<equiv> \<lparr>msg_sender = 1, block_timestamp = 100\<rparr>"

abbreviation asDevice :: env where
  "asDevice \<equiv> \<lparr>msg_sender = 2, block_timestamp = 200\<rparr>"

abbreviation registerReference :: call where
  "registerReference \<equiv> RegisterTrustedFirmware 2 (Some 42) (Some 1024) (Some 3)"

abbreviation submitMatching :: call where
  "submitMatching \<equiv> VerifyBootStage (Some 42) (Some 1024) (Some 3)
      (Some 42) (Some 1024) (Some 3) (Some 42) (Some 1024) (Some 3)"

abbreviation submitBadBootloader :: call where
  "submitBadBootloader \<equiv> VerifyBootStage (Some 41) (Some 1024) (Some 3)
      (Some 42) (Some 1024) (Some 3) (Some 42) (Some 1024) (Some 3)"

abbreviation submitNothingRight :: call where
  "submitNothingRight \<equiv> VerifyBootStage (Some 7) (Some 7) (Some 0)
      (Some 7) (Some 7) (Some 0) (Some 7) (Some 7) (Some 0)"

abbreviation word32 :: "8 word \<Rightarrow> bytes" where
  "word32 b \<equiv> [0,0,0,0,0,0,0,0, 0,0,0,0,0,0,0,0, 0,0,0,0,0,0,0,0, 0,0,0,0,0,0,0,b]"

abbreviation acceptAll :: checker where
  "acceptAll \<equiv> (\<lambda>requestId cleartexts prf. True)"

abbreviation oneResponse :: checker where
  "oneResponse \<equiv>
     (\<lambda>requestId cleartexts prf. requestId = 7 \<and> cleartexts = word32 9 \<and> prf = [1])"

abbreviation callback9 :: call where
  "callback9 \<equiv> DecryptBootStatus 7 (word32 9) [1]"

abbreviation stage :: "uint32 \<Rightarrow> uint32 \<Rightarrow> bool \<Rightarrow> BootStage" where
  "stage bc score v \<equiv>
     \<lparr>bootloader = \<lparr>encryptedChecksum = Some bc, encryptedSize = Some 1024,
                    encryptedVersion = Some 3, isVerified = v\<rparr>,
      kernel = \<lparr>encryptedChecksum = Some 42, encryptedSize = Some 1024,
                encryptedVersion = Some 3, isVerified = v\<rparr>,
      rootfs = \<lparr>encryptedChecksum = Some 42, encryptedSize = Some 1024,
                encryptedVersion = Some 3, isVerified = v\<rparr>,
      overallStatus = Some score, timestamp = 200\<rparr>"

text \<open>
  The storage after the three flag assignments on the last record of device \<open>d\<close>.
\<close>

abbreviation finalized :: "contract \<Rightarrow> address \<Rightarrow> contract" where
  "finalized s d \<equiv> s\<lparr>deviceBootRecords := (deviceBootRecords s)
      (d := (deviceBootRecords s d)[length (deviceBootRecords s d) - 1 :=
               setVerified (last (deviceBootRecords s d))])\<rparr>"

section \<open>Properties\<close>

subsection \<open>Scoring and submission\<close>

lemmas FHE_defs = plain_def FHE_asEuint32_def FHE_eq_def FHE_gt_def FHE_select_def FHE_add_def

lemma verifyComponent_plain:
  "verifyComponent s d c =
     Some ((if plain (encryptedChecksum c) = plain (trustedChecksums s d) then 1 else 0)
         + (if plain (encryptedSize c) = plain (trustedSizes s d) then 1 else 0)
         + (if 0 < plain (encryptedVersion c) then 1 else 0))"
  by (simp add: verifyComponent_def FHE_defs Let_def)

lemma verifyComponent_le3: "plain (verifyComponent s d c) \<le> 3"
  by (simp add: verifyComponent_plain plain_def)

lemma word_sum3_le9:
  fixes a b c :: uint32
  assumes "a \<le> 3" "b \<le> 3" "c \<le> 3"
  shows "a + b + c \<le> 9"
proof -
  have "unat a \<le> 3" "unat b \<le> 3" "unat c \<le> 3"
    using assms by (simp_all add: word_le_nat_alt)
  then have "unat (a + b + c) \<le> 9"
    by (simp add: unat_word_ariths)
  then show ?thesis by (simp add: word_le_nat_alt)
qed

lemma markVerified_last:
  "markVerified d (length (f d)) (s\<lparr>deviceBootRecords := f(d := f d @ [st])\<rparr>) =
     Inr (s\<lparr>deviceBootRecords := f(d := f d @ [setVerified st])\<rparr>)"
  by (simp add: markVerified_def Let_def)

lemma verifyBootStage_eq:
  "verifyBootStage e bc bs bv kc ks kv rc rs rv s =
    (let d = msg_sender e; i = length (deviceBootRecords s d);
         st = submitted e bc bs bv kc ks kv rc rs rv s False;
         pass = (ucast (verificationThreshold s) < plain (overallStatus st))
     in Inr ([BootAttempt d i,
              if pass then VerificationPassed d i else VerificationFailed d i],
             s\<lparr>deviceBootRecords := (deviceBootRecords s)
                 (d := deviceBootRecords s d @
                    [submitted e bc bs bv kc ks kv rc rs rv s pass])\<rparr>))"
  by (simp add: verifyBootStage_def Let_def markVerified_last submitted_def setVerified_def
      FHE_add_def FHE_gt_def FHE_asEuint32_def plain_def)

lemmas scenario_defs = commit_def constructor_def registerTrustedFirmware_def
  updateVerificationThreshold_def requestBootStatusDecryption_def decryptBootStatus_def
  abi_decode_uint32_def be_nat_def markVerified_def setVerified_def verifyBootStage_eq
  submitted_def verifyComponent_plain plain_def getBootStageCount_def
  getBootStageStatus_def Let_def

text \<open>
  C7. A submission never reverts. It appends exactly one record to the sender's array
  and to no other; the index announced in \<open>BootAttempt\<close> is the sender's stage count
  before the call, the new record sits at that index and holds the submitted handles, and
  the count after the call is one more.
\<close>

theorem stage_index_is_prior_count:
  "\<exists>evs s' st. verifyBootStage e bc bs bv kc ks kv rc rs rv s = Inr (evs, s')
     \<and> deviceBootRecords s' =
         (deviceBootRecords s)(msg_sender e := deviceBootRecords s (msg_sender e) @ [st])
     \<and> hd evs = BootAttempt (msg_sender e) (getBootStageCount s (msg_sender e))
     \<and> deviceBootRecords s' (msg_sender e) ! getBootStageCount s (msg_sender e) = st
     \<and> getBootStageCount s' (msg_sender e) = getBootStageCount s (msg_sender e) + 1
     \<and> encryptedChecksum (bootloader st) = bc \<and> encryptedSize (bootloader st) = bs
     \<and> encryptedVersion (bootloader st) = bv
     \<and> encryptedChecksum (kernel st) = kc \<and> encryptedSize (kernel st) = ks
     \<and> encryptedVersion (kernel st) = kv
     \<and> encryptedChecksum (rootfs st) = rc \<and> encryptedSize (rootfs st) = rs
     \<and> encryptedVersion (rootfs st) = rv
     \<and> timestamp st = block_timestamp e"
  by (simp add: verifyBootStage_eq Let_def getBootStageCount_def submitted_def)

text \<open>
  C6. The score of a component is the sum of three contributions of 1 or 0: checksum
  equal to the reference, size equal to the reference, version greater than zero; it is
  at most 3. The overall score stored with a stage is the sum of its three component
  scores and at most 9. With the reference \<open>(42, 1024, 3)\<close> and evidence that matches
  except for the bootloader checksum 41, the score is 8; the stage fails under
  threshold 8 and passes under threshold 7.
\<close>

theorem score_is_sum_of_contributions:
  "plain (verifyComponent s d c) =
       (if FHE_eq (encryptedChecksum c) (trustedChecksums s d) then 1 else 0)
     + (if FHE_eq (encryptedSize c) (trustedSizes s d) then 1 else 0)
     + (if FHE_gt (encryptedVersion c) (FHE_asEuint32 0) then 1 else 0)
   \<and> plain (verifyComponent s d c) \<le> 3
   \<and> (\<exists>evs s' st. verifyBootStage e bc bs bv kc ks kv rc rs rv s = Inr (evs, s')
        \<and> deviceBootRecords s' (msg_sender e) = deviceBootRecords s (msg_sender e) @ [st]
        \<and> plain (overallStatus st) =
             plain (verifyComponent s (msg_sender e) (bootloader st))
           + plain (verifyComponent s (msg_sender e) (kernel st))
           + plain (verifyComponent s (msg_sender e) (rootfs st))
        \<and> plain (overallStatus st) \<le> 9)
   \<and> (let r8 = run chk [(\<lparr>msg_sender = a, block_timestamp = t0\<rparr>,
                          RegisterTrustedFirmware dv (Some 42) (Some 1024) (Some 3)),
                         (\<lparr>msg_sender = dv, block_timestamp = t1\<rparr>, submitBadBootloader)]
                    ([], constructor a 8)
       in fst r8 = [FirmwareRegistered dv, BootAttempt dv 0, VerificationFailed dv 0]
          \<and> map overallStatus (deviceBootRecords (snd r8) dv) = [Some 8]
          \<and> getBootStageStatus (snd r8) dv 0 = Inr (False, False, False, t1))
   \<and> (let r7 = run chk [(\<lparr>msg_sender = a, block_timestamp = t0\<rparr>,
                          RegisterTrustedFirmware dv (Some 42) (Some 1024) (Some 3)),
                         (\<lparr>msg_sender = dv, block_timestamp = t1\<rparr>, submitBadBootloader)]
                    ([], constructor a 7)
       in fst r7 = [FirmwareRegistered dv, BootAttempt dv 0, VerificationPassed dv 0]
          \<and> map overallStatus (deviceBootRecords (snd r7) dv) = [Some 8]
          \<and> getBootStageStatus (snd r7) dv 0 = Inr (True, True, True, t1))"
proof -
  have c1: "plain (verifyComponent s d c) =
       (if FHE_eq (encryptedChecksum c) (trustedChecksums s d) then 1 else 0)
     + (if FHE_eq (encryptedSize c) (trustedSizes s d) then 1 else 0)
     + (if FHE_gt (encryptedVersion c) (FHE_asEuint32 0) then 1 else 0)"
    by (simp add: verifyComponent_plain FHE_defs)
  let ?st = "submitted e bc bs bv kc ks kv rc rs rv s
      (ucast (verificationThreshold s)
         < plain (overallStatus (submitted e bc bs bv kc ks kv rc rs rv s False)))"
  have sum: "plain (overallStatus ?st) =
             plain (verifyComponent s (msg_sender e) (bootloader ?st))
           + plain (verifyComponent s (msg_sender e) (kernel ?st))
           + plain (verifyComponent s (msg_sender e) (rootfs ?st))"
    by (simp add: submitted_def verifyComponent_plain plain_def)
  have "plain (overallStatus ?st) \<le> 9"
    unfolding sum by (intro word_sum3_le9 verifyComponent_le3)
  with sum have c3: "\<exists>evs s' st. verifyBootStage e bc bs bv kc ks kv rc rs rv s = Inr (evs, s')
        \<and> deviceBootRecords s' (msg_sender e) = deviceBootRecords s (msg_sender e) @ [st]
        \<and> plain (overallStatus st) =
             plain (verifyComponent s (msg_sender e) (bootloader st))
           + plain (verifyComponent s (msg_sender e) (kernel st))
           + plain (verifyComponent s (msg_sender e) (rootfs st))
        \<and> plain (overallStatus st) \<le> 9"
    by (simp add: verifyBootStage_eq Let_def)
  show ?thesis
    apply (intro conjI)
        apply (rule c1)
       apply (rule verifyComponent_le3)
      apply (rule c3)
     apply (simp add: scenario_defs)
    apply (simp add: scenario_defs)
    done
qed

text \<open>
  C1, as the code has it. The contract has no check for a missing reference and no error
  for it: a device whose reference handles are all unset submits successfully, one record
  is appended, and the score is the one against the all-zero profile (a checksum or size
  of zero counts as a match).
\<close>

theorem unregistered_submission_is_scored:
  assumes "trustedChecksums s (msg_sender e) = None"
    and "trustedSizes s (msg_sender e) = None"
    and "trustedVersions s (msg_sender e) = None"
  shows "\<exists>evs s'. verifyBootStage e bc bs bv kc ks kv rc rs rv s = Inr (evs, s')
     \<and> getBootStageCount s' (msg_sender e) = getBootStageCount s (msg_sender e) + 1
     \<and> overallStatus (last (deviceBootRecords s' (msg_sender e))) =
         Some ((if plain bc = 0 then 1 else 0) + (if plain bs = 0 then 1 else 0)
                + (if 0 < plain bv then 1 else 0)
             + ((if plain kc = 0 then 1 else 0) + (if plain ks = 0 then 1 else 0)
                + (if 0 < plain kv then 1 else 0))
             + ((if plain rc = 0 then 1 else 0) + (if plain rs = 0 then 1 else 0)
                + (if 0 < plain rv then 1 else 0)))"
  using assms
  by (simp add: verifyBootStage_eq Let_def getBootStageCount_def submitted_def
      verifyComponent_plain plain_def)

theorem unregistered_submission_witness:
  "trustedChecksums (constructor 1 5) (msg_sender asDevice) = None
   \<and> trustedSizes (constructor 1 5) (msg_sender asDevice) = None
   \<and> trustedVersions (constructor 1 5) (msg_sender asDevice) = None
   \<and> (\<exists>evs s'. verifyBootStage asDevice (Some 0) (Some 0) (Some 1) (Some 0) (Some 0) (Some 1)
          (Some 0) (Some 0) (Some 1) (constructor 1 5) = Inr (evs, s')
        \<and> getBootStageCount s' 2 = 1
        \<and> overallStatus (last (deviceBootRecords s' 2)) = Some 9)"
proof -
  have h: "trustedChecksums (constructor 1 5) (msg_sender asDevice) = None"
    "trustedSizes (constructor 1 5) (msg_sender asDevice) = None"
    "trustedVersions (constructor 1 5) (msg_sender asDevice) = None"
    by (simp_all add: constructor_def)
  have "getBootStageCount (constructor 1 5) 2 = 0"
    by (simp add: getBootStageCount_def constructor_def)
  with h unregistered_submission_is_scored [OF h, of "Some 0" "Some 0" "Some 1"
      "Some 0" "Some 0" "Some 1" "Some 0" "Some 0" "Some 1"]
  show ?thesis by (simp add: plain_def)
qed

text \<open>
  The claim as stated fails: on the freshly constructed contract (threshold 5, nothing
  registered) device 2 submits zero checksums and sizes with version 1. The call returns
  normally, the record is stored with score 9 and the stage passes.
\<close>

theorem unregistered_submission_counterexample:
  "trustedChecksums (constructor 1 5) 2 = None \<and> trustedSizes (constructor 1 5) 2 = None
   \<and> trustedVersions (constructor 1 5) 2 = None
   \<and> getBootStageCount (constructor 1 5) 2 = 0
   \<and> verifyBootStage asDevice (Some 0) (Some 0) (Some 1) (Some 0) (Some 0) (Some 1)
        (Some 0) (Some 0) (Some 1) (constructor 1 5) =
      Inr ([BootAttempt 2 0, VerificationPassed 2 0],
           (constructor 1 5)\<lparr>deviceBootRecords := (deviceBootRecords (constructor 1 5))(2 :=
              [\<lparr>bootloader = \<lparr>encryptedChecksum = Some 0, encryptedSize = Some 0,
                              encryptedVersion = Some 1, isVerified = True\<rparr>,
                kernel = \<lparr>encryptedChecksum = Some 0, encryptedSize = Some 0,
                          encryptedVersion = Some 1, isVerified = True\<rparr>,
                rootfs = \<lparr>encryptedChecksum = Some 0, encryptedSize = Some 0,
                          encryptedVersion = Some 1, isVerified = True\<rparr>,
                overallStatus = Some 9, timestamp = 200\<rparr>])\<rparr>)"
  by (simp add: scenario_defs)

subsection \<open>What a call can do to the records\<close>

lemma markVerified_Inr:
  "markVerified d i s = Inr s' \<Longrightarrow>
     i < length (deviceBootRecords s d) \<and>
     s' = s\<lparr>deviceBootRecords := (deviceBootRecords s)
             (d := (deviceBootRecords s d)[i := setVerified (deviceBootRecords s d ! i)])\<rparr>"
  by (auto simp: markVerified_def Let_def split: if_splits)

lemma decryptBootStatus_Inr:
  assumes "decryptBootStatus chk e r ct p s = Inr (evs, s')"
  shows "evs = [] \<and> deviceBootRecords s (msg_sender e) \<noteq> [] \<and>
     (s' = s \<or> s' = s\<lparr>deviceBootRecords := (deviceBootRecords s)
             (msg_sender e := (deviceBootRecords s (msg_sender e))
                [length (deviceBootRecords s (msg_sender e)) - 1 :=
                   setVerified (last (deviceBootRecords s (msg_sender e)))])\<rparr>)"
  using assms
  by (auto simp: decryptBootStatus_def Let_def last_conv_nth
      split: if_splits option.splits sum.splits dest!: markVerified_Inr)

lemma exec_keeps_records:
  assumes "exec chk e c s = Inr (evs, s')" and "i < length (deviceBootRecords s d)"
  shows "i < length (deviceBootRecords s' d) \<and>
     (deviceBootRecords s' d ! i = deviceBootRecords s d ! i \<or>
      (\<exists>r ct p. c = DecryptBootStatus r ct p) \<and>
        deviceBootRecords s' d ! i = setVerified (deviceBootRecords s d ! i))"
proof (cases c)
  case (RegisterTrustedFirmware d0 c0 z0 v0)
  with assms show ?thesis
    by (auto simp: registerTrustedFirmware_def split: if_splits)
next
  case (VerifyBootStage bc bs bv kc ks kv rc rs rv)
  with assms show ?thesis
    by (auto simp: verifyBootStage_eq Let_def nth_append)
next
  case (RequestBootStatusDecryption j)
  with assms show ?thesis
    by (auto simp: requestBootStatusDecryption_def Let_def split: if_splits)
next
  case (DecryptBootStatus r ct p)
  with assms have "decryptBootStatus chk e r ct p s = Inr (evs, s')" by simp
  from decryptBootStatus_Inr [OF this] assms(2) DecryptBootStatus show ?thesis
    by (auto simp: nth_list_update last_conv_nth)
next
  case (UpdateVerificationThreshold n)
  with assms show ?thesis
    by (auto simp: updateVerificationThreshold_def split: if_splits)
qed

text \<open>
  C2, as the code has it. The submission decides at once: it branches on the comparison
  of the score with the threshold (cut to 32 bits). When the score is greater, the three
  flags of the new record are true at return and \<open>VerificationPassed\<close> is emitted;
  otherwise they are false and \<open>VerificationFailed\<close> is emitted. One of the two events
  is emitted in every call. Afterwards, a call other than the decryption callback leaves
  every stored record as it is, so a flag left false can become true only through the
  callback.
\<close>

theorem synchronous_decision:
  "(\<exists>evs s' st. verifyBootStage e bc bs bv kc ks kv rc rs rv s = Inr (evs, s')
      \<and> deviceBootRecords s' (msg_sender e) = deviceBootRecords s (msg_sender e) @ [st]
      \<and> (if ucast (verificationThreshold s) < plain (overallStatus st)
          then evs = [BootAttempt (msg_sender e) (getBootStageCount s (msg_sender e)),
                      VerificationPassed (msg_sender e) (getBootStageCount s (msg_sender e))]
               \<and> isVerified (bootloader st) \<and> isVerified (kernel st) \<and> isVerified (rootfs st)
          else evs = [BootAttempt (msg_sender e) (getBootStageCount s (msg_sender e)),
                      VerificationFailed (msg_sender e) (getBootStageCount s (msg_sender e))]
               \<and> \<not> isVerified (bootloader st) \<and> \<not> isVerified (kernel st)
               \<and> \<not> isVerified (rootfs st)))
   \<and> (exec chk e1 c t = Inr (evs1, t1) \<and> j < length (deviceBootRecords t d)
        \<and> (\<forall>r ct p. c \<noteq> DecryptBootStatus r ct p)
      \<longrightarrow> deviceBootRecords t1 d ! j = deviceBootRecords t d ! j)"
proof -
  have "exec chk e1 c t = Inr (evs1, t1) \<and> j < length (deviceBootRecords t d)
        \<and> (\<forall>r ct p. c \<noteq> DecryptBootStatus r ct p)
      \<longrightarrow> deviceBootRecords t1 d ! j = deviceBootRecords t d ! j"
    using exec_keeps_records [of chk e1 c t evs1 t1 j d] by blast
  then show ?thesis
    by (simp add: verifyBootStage_eq Let_def getBootStageCount_def submitted_def)
qed

theorem synchronous_decision_witness:
  "exec acceptAll asAdmin (UpdateVerificationThreshold 0)
      (snd (run acceptAll [(asAdmin, registerReference), (asDevice, submitBadBootloader)]
              ([], constructor 1 8)))
     = Inr ([ThresholdUpdated 0],
            (snd (run acceptAll [(asAdmin, registerReference), (asDevice, submitBadBootloader)]
              ([], constructor 1 8)))\<lparr>verificationThreshold := 0\<rparr>)
   \<and> 0 < length (deviceBootRecords
        (snd (run acceptAll [(asAdmin, registerReference), (asDevice, submitBadBootloader)]
              ([], constructor 1 8))) 2)
   \<and> (\<forall>r ct p. UpdateVerificationThreshold 0 \<noteq> DecryptBootStatus r ct p)
   \<and> deviceBootRecords
        ((snd (run acceptAll [(asAdmin, registerReference), (asDevice, submitBadBootloader)]
              ([], constructor 1 8)))\<lparr>verificationThreshold := 0\<rparr>) 2 ! 0
     = deviceBootRecords
        (snd (run acceptAll [(asAdmin, registerReference), (asDevice, submitBadBootloader)]
              ([], constructor 1 8))) 2 ! 0"
proof -
  let ?t = "snd (run acceptAll [(asAdmin, registerReference), (asDevice, submitBadBootloader)]
              ([], constructor 1 8))"
  have h1: "exec acceptAll asAdmin (UpdateVerificationThreshold 0) ?t
     = Inr ([ThresholdUpdated 0], ?t\<lparr>verificationThreshold := 0\<rparr>)"
    by (simp add: scenario_defs)
  have h2: "0 < length (deviceBootRecords ?t 2)"
    by (simp add: scenario_defs)
  have h3: "\<forall>r ct p. UpdateVerificationThreshold 0 \<noteq> DecryptBootStatus r ct p"
    by simp
  from synchronous_decision [of asDevice "Some 41" "Some 1024" "Some 3"
      "Some 42" "Some 1024" "Some 3" "Some 42" "Some 1024" "Some 3" ?t acceptAll asAdmin
      "UpdateVerificationThreshold 0" ?t "[ThresholdUpdated 0]"
      "?t\<lparr>verificationThreshold := 0\<rparr>" 0 2] h1 h2 h3
  have "deviceBootRecords (?t\<lparr>verificationThreshold := 0\<rparr>) 2 ! 0 = deviceBootRecords ?t 2 ! 0"
    by blast
  with h1 h2 h3 show ?thesis by blast
qed

text \<open>
  The claim as stated fails: with threshold 5 and the reference registered, a matching
  submission returns with \<open>VerificationPassed\<close> emitted and the three flags true.
\<close>

theorem synchronous_decision_counterexample:
  "exec acceptAll asDevice submitMatching
      (snd (run acceptAll [(asAdmin, registerReference)] ([], constructor 1 5))) =
   Inr ([BootAttempt 2 0, VerificationPassed 2 0],
        (snd (run acceptAll [(asAdmin, registerReference)] ([], constructor 1 5)))
          \<lparr>deviceBootRecords := (deviceBootRecords (constructor 1 5))(2 :=
              [\<lparr>bootloader = \<lparr>encryptedChecksum = Some 42, encryptedSize = Some 1024,
                              encryptedVersion = Some 3, isVerified = True\<rparr>,
                kernel = \<lparr>encryptedChecksum = Some 42, encryptedSize = Some 1024,
                          encryptedVersion = Some 3, isVerified = True\<rparr>,
                rootfs = \<lparr>encryptedChecksum = Some 42, encryptedSize = Some 1024,
                          encryptedVersion = Some 3, isVerified = True\<rparr>,
                overallStatus = Some 9, timestamp = 200\<rparr>])\<rparr>)"
  by (simp add: scenario_defs)

subsection \<open>Monotonic flags\<close>

lemma setVerified_flags:
  "isVerified (bootloader (setVerified st)) \<and> isVerified (kernel (setVerified st))
   \<and> isVerified (rootfs (setVerified st))"
  by (simp add: setVerified_def)

lemma commit_monotone:
  assumes "i < length (deviceBootRecords (snd ls) d)"
  shows "i < length (deviceBootRecords (snd (commit chk e c ls)) d)
     \<and> (isVerified (bootloader (deviceBootRecords (snd ls) d ! i)) \<longrightarrow>
          isVerified (bootloader (deviceBootRecords (snd (commit chk e c ls)) d ! i)))
     \<and> (isVerified (kernel (deviceBootRecords (snd ls) d ! i)) \<longrightarrow>
          isVerified (kernel (deviceBootRecords (snd (commit chk e c ls)) d ! i)))
     \<and> (isVerified (rootfs (deviceBootRecords (snd ls) d ! i)) \<longrightarrow>
          isVerified (rootfs (deviceBootRecords (snd (commit chk e c ls)) d ! i)))"
proof (cases "exec chk e c (snd ls)")
  case (Inl err)
  with assms show ?thesis by (simp add: commit_def)
next
  case (Inr p)
  obtain evs s' where p: "p = (evs, s')" by (cases p)
  from exec_keeps_records [OF Inr [unfolded p] assms] setVerified_flags
  show ?thesis
    by (auto simp: commit_def Inr p)
qed

lemma run_monotone:
  "i < length (deviceBootRecords (snd ls) d) \<Longrightarrow>
     i < length (deviceBootRecords (snd (run chk txs ls)) d)
     \<and> (isVerified (bootloader (deviceBootRecords (snd ls) d ! i)) \<longrightarrow>
          isVerified (bootloader (deviceBootRecords (snd (run chk txs ls)) d ! i)))
     \<and> (isVerified (kernel (deviceBootRecords (snd ls) d ! i)) \<longrightarrow>
          isVerified (kernel (deviceBootRecords (snd (run chk txs ls)) d ! i)))
     \<and> (isVerified (rootfs (deviceBootRecords (snd ls) d ! i)) \<longrightarrow>
          isVerified (rootfs (deviceBootRecords (snd (run chk txs ls)) d ! i)))"
proof (induction txs arbitrary: ls)
  case Nil
  then show ?case by simp
next
  case (Cons tx txs)
  obtain e c where tx: "tx = (e, c)" by (cases tx)
  from commit_monotone [OF Cons.prems, of chk e c]
  have step: "i < length (deviceBootRecords (snd (commit chk e c ls)) d)"
    and b: "isVerified (bootloader (deviceBootRecords (snd ls) d ! i)) \<longrightarrow>
          isVerified (bootloader (deviceBootRecords (snd (commit chk e c ls)) d ! i))"
    and k: "isVerified (kernel (deviceBootRecords (snd ls) d ! i)) \<longrightarrow>
          isVerified (kernel (deviceBootRecords (snd (commit chk e c ls)) d ! i))"
    and r: "isVerified (rootfs (deviceBootRecords (snd ls) d ! i)) \<longrightarrow>
          isVerified (rootfs (deviceBootRecords (snd (commit chk e c ls)) d ! i))"
    by simp_all
  from Cons.IH [OF step] b k r show ?case
    by (simp add: tx)
qed

text \<open>
  C8. Along any sequence of transactions (registrations, submissions, decryption
  requests, callbacks, threshold updates, from any senders, committed or reverted), a
  stored stage stays stored at its index and each of its three flags, once true, is true
  in the final storage.
\<close>

theorem verified_flags_monotonic:
  assumes "i < length (deviceBootRecords s d)"
  shows "i < length (deviceBootRecords (snd (run chk txs (l, s))) d)
     \<and> (isVerified (bootloader (deviceBootRecords s d ! i)) \<longrightarrow>
          isVerified (bootloader (deviceBootRecords (snd (run chk txs (l, s))) d ! i)))
     \<and> (isVerified (kernel (deviceBootRecords s d ! i)) \<longrightarrow>
          isVerified (kernel (deviceBootRecords (snd (run chk txs (l, s))) d ! i)))
     \<and> (isVerified (rootfs (deviceBootRecords s d ! i)) \<longrightarrow>
          isVerified (rootfs (deviceBootRecords (snd (run chk txs (l, s))) d ! i)))"
  using run_monotone [of i "(l, s)" d chk txs] assms by simp

theorem verified_flags_monotonic_witness:
  "0 < length (deviceBootRecords
        (snd (run acceptAll [(asAdmin, registerReference), (asDevice, submitMatching)]
               ([], constructor 1 5))) 2)
   \<and> isVerified (bootloader (deviceBootRecords
        (snd (run acceptAll [(asAdmin, registerReference), (asDevice, submitMatching)]
               ([], constructor 1 5))) 2 ! 0))
   \<and> isVerified (kernel (deviceBootRecords
        (snd (run acceptAll [(asAdmin, registerReference), (asDevice, submitMatching)]
               ([], constructor 1 5))) 2 ! 0))
   \<and> isVerified (rootfs (deviceBootRecords
        (snd (run acceptAll [(asAdmin, registerReference), (asDevice, submitMatching)]
               ([], constructor 1 5))) 2 ! 0))
   \<and> isVerified (bootloader (deviceBootRecords
        (snd (run acceptAll [(asDevice, submitNothingRight),
                (asAdmin, UpdateVerificationThreshold 100),
                (asDevice, DecryptBootStatus 7 (word32 0) [1]),
                (asAdmin, RegisterTrustedFirmware 2 None None None)]
          ([], snd (run acceptAll [(asAdmin, registerReference), (asDevice, submitMatching)]
               ([], constructor 1 5))))) 2 ! 0))
   \<and> isVerified (kernel (deviceBootRecords
        (snd (run acceptAll [(asDevice, submitNothingRight),
                (asAdmin, UpdateVerificationThreshold 100),
                (asDevice, DecryptBootStatus 7 (word32 0) [1]),
                (asAdmin, RegisterTrustedFirmware 2 None None None)]
          ([], snd (run acceptAll [(asAdmin, registerReference), (asDevice, submitMatching)]
               ([], constructor 1 5))))) 2 ! 0))
   \<and> isVerified (rootfs (deviceBootRecords
        (snd (run acceptAll [(asDevice, submitNothingRight),
                (asAdmin, UpdateVerificationThreshold 100),
                (asDevice, DecryptBootStatus 7 (word32 0) [1]),
                (asAdmin, RegisterTrustedFirmware 2 None None None)]
          ([], snd (run acceptAll [(asAdmin, registerReference), (asDevice, submitMatching)]
               ([], constructor 1 5))))) 2 ! 0))"
proof -
  let ?s = "snd (run acceptAll [(asAdmin, registerReference), (asDevice, submitMatching)]
               ([], constructor 1 5))"
  have h: "0 < length (deviceBootRecords ?s 2)"
    by (simp add: scenario_defs)
  have f: "isVerified (bootloader (deviceBootRecords ?s 2 ! 0))"
    "isVerified (kernel (deviceBootRecords ?s 2 ! 0))"
    "isVerified (rootfs (deviceBootRecords ?s 2 ! 0))"
    by (simp_all add: scenario_defs)
  from verified_flags_monotonic [OF h, of acceptAll _ "[]"] h f
  show ?thesis by blast
qed

subsection \<open>Administration\<close>

text \<open>
  C9. A caller other than the administrator is rejected by both administrative functions
  with the message \<open>Admin only\<close>; the calls revert, so the storage and the log are
  what they were.
\<close>

theorem non_admin_is_rejected:
  assumes "msg_sender e \<noteq> admin s"
  shows "registerTrustedFirmware e d c z v s = Inl (Require ''Admin only'')
     \<and> updateVerificationThreshold e n s = Inl (Require ''Admin only'')
     \<and> run chk [(e, RegisterTrustedFirmware d c z v), (e, UpdateVerificationThreshold n)] (l, s)
         = (l, s)"
  using assms
  by (simp add: registerTrustedFirmware_def updateVerificationThreshold_def commit_def)

theorem non_admin_is_rejected_witness:
  "msg_sender asDevice \<noteq> admin (constructor 1 5)
   \<and> registerTrustedFirmware asDevice 2 (Some 0) (Some 0) (Some 0) (constructor 1 5)
       = Inl (Require ''Admin only'')
   \<and> updateVerificationThreshold asDevice 0 (constructor 1 5) = Inl (Require ''Admin only'')"
proof -
  have h: "msg_sender asDevice \<noteq> admin (constructor 1 5)"
    by (simp add: constructor_def)
  from non_admin_is_rejected [OF h] h show ?thesis by blast
qed

subsection \<open>The decryption callback\<close>

lemma decryptBootStatus_accepted:
  assumes "chk r ct p" and "abi_decode_uint32 ct = Some status"
    and "deviceBootRecords s (msg_sender e) \<noteq> []"
  shows "decryptBootStatus chk e r ct p s =
     Inr ([], if ucast (verificationThreshold s) < status
              then finalized s (msg_sender e) else s)"
  using assms
  by (simp add: decryptBootStatus_def Let_def markVerified_def last_conv_nth)



text \<open>
  C10. When the sender of the callback has no stage, the call reverts: on the signature
  check or the decoding if one of them fails, and otherwise on the subtraction
  \<open>length - 1\<close>, which underflows (panic \<open>0x11\<close>). The storage and the log are
  unchanged.
\<close>

theorem callback_without_stages_reverts:
  assumes "deviceBootRecords s (msg_sender e) = []"
  shows "decryptBootStatus chk e r ct p s =
       (if \<not> chk r ct p then Inl InvalidSignatures
        else if abi_decode_uint32 ct = None then Inl AbiDecodeError
        else Inl (Panic 0x11))
     \<and> commit chk e (DecryptBootStatus r ct p) (l, s) = (l, s)"
  using assms
  by (auto simp: decryptBootStatus_def commit_def Let_def split: option.splits)

theorem callback_without_stages_witness:
  "deviceBootRecords (constructor 1 5) (msg_sender asDevice) = []
   \<and> decryptBootStatus acceptAll asDevice 7 (word32 9) [] (constructor 1 5) = Inl (Panic 0x11)"
proof -
  have h: "deviceBootRecords (constructor 1 5) (msg_sender asDevice) = []"
    by (simp add: constructor_def)
  have d: "abi_decode_uint32 (word32 9) = Some 9"
    by (simp add: abi_decode_uint32_def be_nat_def)
  from callback_without_stages_reverts [OF h, of acceptAll 7 "word32 9" "[]"] h d
  show ?thesis by simp
qed

text \<open>
  C4, as the code has it. A callback whose signature check passes and whose cleartext
  decodes, sent by an address that has at least one stage, emits no event and touches one
  record at most: the last record of its own sender. When the decoded score is greater
  than the threshold (cut to 32 bits) the three flags of that record are set; otherwise
  the storage is unchanged. The request id plays no part in the choice of the record.
\<close>

theorem callback_finalizes_latest_stage_of_sender:
  assumes "chk r ct p" and "abi_decode_uint32 ct = Some status"
    and "deviceBootRecords s (msg_sender e) \<noteq> []"
  shows "decryptBootStatus chk e r ct p s =
       Inr ([], if ucast (verificationThreshold s) < status
                then s\<lparr>deviceBootRecords := (deviceBootRecords s)
                       (msg_sender e := (deviceBootRecords s (msg_sender e))
                          [length (deviceBootRecords s (msg_sender e)) - 1 :=
                             setVerified (last (deviceBootRecords s (msg_sender e)))])\<rparr>
                else s)
     \<and> isVerified (bootloader (setVerified st)) \<and> isVerified (kernel (setVerified st))
     \<and> isVerified (rootfs (setVerified st))"
  using decryptBootStatus_accepted [of chk r ct p status s e] assms
  by (simp add: setVerified_def)

theorem callback_finalizes_witness:
  "oneResponse 7 (word32 9) [1] \<and> abi_decode_uint32 (word32 9) = Some 9
   \<and> deviceBootRecords
        (snd (run oneResponse [(asAdmin, registerReference), (asDevice, submitMatching),
               (asAdmin, UpdateVerificationThreshold 8)] ([], constructor 1 9)))
        (msg_sender asDevice) \<noteq> []
   \<and> decryptBootStatus oneResponse asDevice 7 (word32 9) [1]
        (snd (run oneResponse [(asAdmin, registerReference), (asDevice, submitMatching),
               (asAdmin, UpdateVerificationThreshold 8)] ([], constructor 1 9)))
     = Inr ([], \<lparr>deviceBootRecords = (deviceBootRecords (constructor 1 9))
                    (2 := [stage 42 9 True]),
                 trustedChecksums = (trustedChecksums (constructor 1 9))(2 := Some 42),
                 trustedSizes = (trustedSizes (constructor 1 9))(2 := Some 1024),
                 trustedVersions = (trustedVersions (constructor 1 9))(2 := Some 3),
                 verificationThreshold = 8, admin = 1\<rparr>)"
proof -
  let ?s = "snd (run oneResponse [(asAdmin, registerReference), (asDevice, submitMatching),
               (asAdmin, UpdateVerificationThreshold 8)] ([], constructor 1 9))"
  have h1: "oneResponse 7 (word32 9) [1]" by simp
  have h2: "abi_decode_uint32 (word32 9) = Some 9"
    by (simp add: abi_decode_uint32_def be_nat_def)
  have h3: "deviceBootRecords ?s (msg_sender asDevice) \<noteq> []"
    by (simp add: scenario_defs)
  from callback_finalizes_latest_stage_of_sender
    [of oneResponse 7 "word32 9" "[1]" 9 ?s asDevice, OF h1 h2 h3]
  have "decryptBootStatus oneResponse asDevice 7 (word32 9) [1] ?s
     = Inr ([], \<lparr>deviceBootRecords = (deviceBootRecords (constructor 1 9))
                    (2 := [stage 42 9 True]),
                 trustedChecksums = (trustedChecksums (constructor 1 9))(2 := Some 42),
                 trustedSizes = (trustedSizes (constructor 1 9))(2 := Some 1024),
                 trustedVersions = (trustedVersions (constructor 1 9))(2 := Some 3),
                 verificationThreshold = 8, admin = 1\<rparr>)"
    by (simp add: scenario_defs)
  with h1 h2 h3 show ?thesis by blast
qed

text \<open>
  The claim as stated fails. Threshold 9; the device submits a matching stage 0 (score 9)
  and a stage 1 with a wrong bootloader checksum (score 8), both undecided; the
  administrator lowers the threshold to 8; the device asks for the decryption of stage 0
  and the response for it (cleartext 9) arrives. Stage 0 stays unverified, the flags of
  stage 1 are set, and the callback emits no event.
\<close>

theorem wrong_stage_counterexample:
  "getBootStageStatus
        (snd (run oneResponse [(asAdmin, registerReference), (asDevice, submitMatching),
              (asDevice, submitBadBootloader), (asAdmin, UpdateVerificationThreshold 8),
              (asDevice, RequestBootStatusDecryption 0)] ([], constructor 1 9))) 2 1
     = Inr (False, False, False, 200)
   \<and> run oneResponse [(asAdmin, registerReference), (asDevice, submitMatching),
              (asDevice, submitBadBootloader), (asAdmin, UpdateVerificationThreshold 8),
              (asDevice, RequestBootStatusDecryption 0), (asDevice, callback9)]
         ([], constructor 1 9)
     = ([FirmwareRegistered 2, BootAttempt 2 0, VerificationFailed 2 0,
         BootAttempt 2 1, VerificationFailed 2 1, ThresholdUpdated 8],
        \<lparr>deviceBootRecords = (deviceBootRecords (constructor 1 9))
            (2 := [stage 42 9 False, stage 41 8 True]),
         trustedChecksums = (trustedChecksums (constructor 1 9))(2 := Some 42),
         trustedSizes = (trustedSizes (constructor 1 9))(2 := Some 1024),
         trustedVersions = (trustedVersions (constructor 1 9))(2 := Some 3),
         verificationThreshold = 8, admin = 1\<rparr>)"
  by (simp add: scenario_defs)




text \<open>
  C5, as the code has it. A threshold update by the administrator replaces the threshold
  and emits \<open>ThresholdUpdated\<close>; it changes no stored record. The callback compares the
  delivered score with the threshold stored when the callback runs, so after the update
  it decides with the new value.
\<close>

theorem threshold_update_keeps_records:
  assumes "msg_sender e = admin s"
  shows "updateVerificationThreshold e n s
           = Inr ([ThresholdUpdated n], s\<lparr>verificationThreshold := n\<rparr>)
     \<and> deviceBootRecords (s\<lparr>verificationThreshold := n\<rparr>) = deviceBootRecords s
     \<and> (chk r ct p \<and> abi_decode_uint32 ct = Some status
          \<and> deviceBootRecords s (msg_sender e1) \<noteq> [] \<longrightarrow>
        decryptBootStatus chk e1 r ct p (s\<lparr>verificationThreshold := n\<rparr>) =
          Inr ([], if ucast n < status
                   then s\<lparr>verificationThreshold := n,
                          deviceBootRecords := (deviceBootRecords s)
                            (msg_sender e1 := (deviceBootRecords s (msg_sender e1))
                               [length (deviceBootRecords s (msg_sender e1)) - 1 :=
                                  setVerified (last (deviceBootRecords s (msg_sender e1)))])\<rparr>
                   else s\<lparr>verificationThreshold := n\<rparr>))"
proof -
  have "chk r ct p \<and> abi_decode_uint32 ct = Some status
          \<and> deviceBootRecords s (msg_sender e1) \<noteq> [] \<longrightarrow>
        decryptBootStatus chk e1 r ct p (s\<lparr>verificationThreshold := n\<rparr>) =
          Inr ([], if ucast n < status
                   then s\<lparr>verificationThreshold := n,
                          deviceBootRecords := (deviceBootRecords s)
                            (msg_sender e1 := (deviceBootRecords s (msg_sender e1))
                               [length (deviceBootRecords s (msg_sender e1)) - 1 :=
                                  setVerified (last (deviceBootRecords s (msg_sender e1)))])\<rparr>
                   else s\<lparr>verificationThreshold := n\<rparr>)"
    using decryptBootStatus_accepted [of chk r ct p status "s\<lparr>verificationThreshold := n\<rparr>" e1]
    by simp
  with assms show ?thesis
    by (simp add: updateVerificationThreshold_def)
qed

theorem threshold_update_witness:
  "msg_sender asAdmin = admin (snd (run acceptAll [(asAdmin, registerReference),
        (asDevice, submitBadBootloader)] ([], constructor 1 8)))
   \<and> updateVerificationThreshold asAdmin 7 (snd (run acceptAll [(asAdmin, registerReference),
        (asDevice, submitBadBootloader)] ([], constructor 1 8)))
      = Inr ([ThresholdUpdated 7], (snd (run acceptAll [(asAdmin, registerReference),
        (asDevice, submitBadBootloader)] ([], constructor 1 8)))\<lparr>verificationThreshold := 7\<rparr>)
   \<and> deviceBootRecords ((snd (run acceptAll [(asAdmin, registerReference),
        (asDevice, submitBadBootloader)] ([], constructor 1 8)))\<lparr>verificationThreshold := 7\<rparr>) 2
      = [stage 41 8 False]
   \<and> decryptBootStatus acceptAll asDevice 7 (word32 8) [1]
        ((snd (run acceptAll [(asAdmin, registerReference),
           (asDevice, submitBadBootloader)] ([], constructor 1 8)))\<lparr>verificationThreshold := 7\<rparr>)
      = Inr ([], \<lparr>deviceBootRecords = (deviceBootRecords (constructor 1 8))
                    (2 := [stage 41 8 True]),
                 trustedChecksums = (trustedChecksums (constructor 1 8))(2 := Some 42),
                 trustedSizes = (trustedSizes (constructor 1 8))(2 := Some 1024),
                 trustedVersions = (trustedVersions (constructor 1 8))(2 := Some 3),
                 verificationThreshold = 7, admin = 1\<rparr>)"
proof -
  let ?s = "snd (run acceptAll [(asAdmin, registerReference),
        (asDevice, submitBadBootloader)] ([], constructor 1 8))"
  have h: "msg_sender asAdmin = admin ?s"
    by (simp add: scenario_defs)
  have r: "deviceBootRecords ?s 2 = [stage 41 8 False]"
    by (simp add: scenario_defs)
  have d: "abi_decode_uint32 (word32 8) = Some 8"
    by (simp add: abi_decode_uint32_def be_nat_def)
  have n: "deviceBootRecords ?s (msg_sender asDevice) \<noteq> []"
    using r by simp
  from threshold_update_keeps_records
    [OF h, of 7 acceptAll 7 "word32 8" "[1]" 8 asDevice] d n
  have "decryptBootStatus acceptAll asDevice 7 (word32 8) [1] (?s\<lparr>verificationThreshold := 7\<rparr>)
      = Inr ([], \<lparr>deviceBootRecords = (deviceBootRecords (constructor 1 8))
                    (2 := [stage 41 8 True]),
                 trustedChecksums = (trustedChecksums (constructor 1 8))(2 := Some 42),
                 trustedSizes = (trustedSizes (constructor 1 8))(2 := Some 1024),
                 trustedVersions = (trustedVersions (constructor 1 8))(2 := Some 3),
                 verificationThreshold = 7, admin = 1\<rparr>)"
    by (simp add: scenario_defs)
  with threshold_update_keeps_records [OF h, of 7] h r show ?thesis by simp
qed

text \<open>
  The claim as stated fails. Threshold 8 and a stage of score 8, which fails at
  submission. If the response (cleartext 8) is delivered at once, the flags stay false.
  If the administrator first lowers the threshold to 7, the same response sets them.
\<close>

theorem threshold_update_counterexample:
  "getBootStageStatus
        (snd (run acceptAll [(asAdmin, registerReference), (asDevice, submitBadBootloader),
              (asDevice, RequestBootStatusDecryption 0),
              (asDevice, DecryptBootStatus 7 (word32 8) [1])] ([], constructor 1 8))) 2 0
     = Inr (False, False, False, 200)
   \<and> getBootStageStatus
        (snd (run acceptAll [(asAdmin, registerReference), (asDevice, submitBadBootloader),
              (asAdmin, UpdateVerificationThreshold 7),
              (asDevice, RequestBootStatusDecryption 0),
              (asDevice, DecryptBootStatus 7 (word32 8) [1])] ([], constructor 1 8))) 2 0
     = Inr (True, True, True, 200)"
  by (simp add: scenario_defs)

end
